theory Spec2Isabelle
  imports Main "HOL-Library.AList"
begin

section \<open>Values exchanged with the debugger\<close>

text \<open>
  The plugin (\<^verbatim>\<open>gotools_debug.py\<close>) talks JSON to a headless debugger. A decoded
  JSON document is a Python object; \<open>json\<close> is the float-free part of what
  \<^verbatim>\<open>json.loads\<close> can return. A Python \<^verbatim>\<open>dict\<close> keeps insertion order and is an
  association list read with \<open>map_of\<close>; strings are byte strings.
\<close>

datatype json =
    JNull
  | JBool bool
  | JInt int
  | JStr string
  | JArr "json list"
  | JObj "(string \<times> json) list"

text \<open>
  Exceptions the modelled code can meet. \<open>Exception v\<close> is the built-in
  \<^verbatim>\<open>Exception(v)\<close> that \<^verbatim>\<open>JSONClient.call\<close> raises with one argument \<open>v\<close>;
  \<open>ValueError\<close> stands for the decoding errors of \<^verbatim>\<open>bytes.decode\<close> and
  \<^verbatim>\<open>json.loads\<close> (both are subclasses of it); the socket and process errors are
  the \<^verbatim>\<open>OSError\<close> subclasses of the same names.
\<close>

datatype error =
    Exception json
  | ValueError
  | AttributeError
  | TypeError
  | KeyError string
  | ConnectionRefusedError
  | BrokenPipeError
  | ConnectionResetError
  | ProcessLookupError
  | ChildProcessError
  | OSError

text \<open>\<^verbatim>\<open>d.get(k)\<close>: the value stored under \<open>k\<close>, \<^verbatim>\<open>None\<close> when the key is absent.\<close>

definition dict_get :: "(string \<times> json) list \<Rightarrow> string \<Rightarrow> json" where
  "dict_get d k = (case map_of d k of None \<Rightarrow> JNull | Some v \<Rightarrow> v)"

text \<open>
  \<^verbatim>\<open>v[k]\<close> with a string key: a \<^verbatim>\<open>dict\<close> answers or raises \<^verbatim>\<open>KeyError\<close>; every
  other JSON value raises \<^verbatim>\<open>TypeError\<close> (a list or a string wants an integer
  index, the others are not subscriptable).
\<close>

definition subscript :: "json \<Rightarrow> string \<Rightarrow> error + json" where
  "subscript v k =
     (case v of
        JObj d \<Rightarrow> (case map_of d k of None \<Rightarrow> Inl (KeyError k) | Some x \<Rightarrow> Inr x)
      | _ \<Rightarrow> Inl TypeError)"

text \<open>
  Python's \<^verbatim>\<open>==\<close> between a decoded value and an \<^verbatim>\<open>int\<close>, and between a decoded
  value and a \<^verbatim>\<open>str\<close>. \<^verbatim>\<open>bool\<close> is a subclass of \<^verbatim>\<open>int\<close>, so \<^verbatim>\<open>True == 1\<close> and
  \<^verbatim>\<open>False == 0\<close>; values of any other type are unequal to a number, and only a
  string equals a string.
\<close>

definition py_eq_int :: "json \<Rightarrow> int \<Rightarrow> bool" where
  "py_eq_int v n =
     (case v of
        JInt m \<Rightarrow> m = n
      | JBool b \<Rightarrow> (if b then 1 else 0) = n
      | _ \<Rightarrow> False)"

definition py_eq_str :: "json \<Rightarrow> string \<Rightarrow> bool" where
  "py_eq_str v s = (case v of JStr t \<Rightarrow> t = s | _ \<Rightarrow> False)"

text \<open>Truth value of a decoded value, as \<^verbatim>\<open>not v\<close> and \<^verbatim>\<open>if v\<close> test it.\<close>

definition py_bool :: "json \<Rightarrow> bool" where
  "py_bool v =
     (case v of
        JNull \<Rightarrow> False
      | JBool b \<Rightarrow> b
      | JInt n \<Rightarrow> n \<noteq> 0
      | JStr s \<Rightarrow> s \<noteq> []
      | JArr xs \<Rightarrow> xs \<noteq> []
      | JObj d \<Rightarrow> d \<noteq> [])"

text \<open>
  \<^verbatim>\<open>for x in v\<close>: a list yields its items, a \<^verbatim>\<open>dict\<close> its keys, a string its
  one-character strings; \<^verbatim>\<open>None\<close>, a \<^verbatim>\<open>bool\<close> and an \<^verbatim>\<open>int\<close> are not iterable.
\<close>

definition py_iter :: "json \<Rightarrow> error + json list" where
  "py_iter v =
     (case v of
        JArr xs \<Rightarrow> Inr xs
      | JObj d \<Rightarrow> Inr (map (\<lambda>kv. JStr (fst kv)) d)
      | JStr s \<Rightarrow> Inr (map (\<lambda>c. JStr [c]) s)
      | _ \<Rightarrow> Inl TypeError)"

text \<open>
  The three functions of the Python runtime that \<^verbatim>\<open>call\<close> relies on are parameters
  of the model: \<open>dumps\<close> is \<^verbatim>\<open>json.dumps(v).encode()\<close>, \<open>loads\<close> is
  \<^verbatim>\<open>json.loads(b.decode())\<close> with \<open>None\<close> where either step raises, and \<open>str_of\<close>
  is \<^verbatim>\<open>str(v)\<close> as the \<^verbatim>\<open>%s\<close> conversion applies it.
\<close>

record codec =
  dumps :: "json \<Rightarrow> string"
  loads :: "string \<Rightarrow> json option"
  str_of :: "json \<Rightarrow> string"

section \<open>The socket\<close>

text \<open>
  One TCP connection as \<^verbatim>\<open>JSONClient\<close> sees it. \<open>inbound\<close> lists what the peer
  delivers, one element per arrival (a segment the kernel hands over in one
  \<^verbatim>\<open>recv\<close> unless it is longer than the buffer); with nothing left the peer has
  closed and \<^verbatim>\<open>recv\<close> returns \<^verbatim>\<open>b''\<close>. \<open>outbound\<close> is what \<^verbatim>\<open>sendall\<close> has
  written, oldest first. \<open>up\<close> is false once the connection is broken, and
  then both calls raise. \<open>fd\<close> identifies the connection.
\<close>

record socket =
  fd :: nat
  up :: bool
  inbound :: "string list"
  outbound :: "string list"

definition sendall :: "string \<Rightarrow> socket \<Rightarrow> (error + unit) \<times> socket" where
  "sendall b s =
     (if up s then (Inr (), s\<lparr>outbound := outbound s @ [b]\<rparr>)
      else (Inl BrokenPipeError, s))"

definition recv :: "nat \<Rightarrow> socket \<Rightarrow> (error + string) \<times> socket" where
  "recv bufsize s =
     (if \<not> up s then (Inl ConnectionResetError, s)
      else (case inbound s of
              [] \<Rightarrow> (Inr [], s)
            | c # cs \<Rightarrow>
                (Inr (take bufsize c),
                 s\<lparr>inbound := (if drop bufsize c = [] then cs else drop bufsize c # cs)\<rparr>)))"

section \<open>JSONClient\<close>

text \<open>
  \<^verbatim>\<open>itertools.count()\<close> yields 0, 1, 2, ...; \<open>id_counter\<close> is the value the next
  \<^verbatim>\<open>next(self.id_counter)\<close> returns.
\<close>

record JSONClient =
  sock :: socket
  id_counter :: nat

text \<open>Lines 34 to 36: the request \<^verbatim>\<open>dict(id=..., params=list(params), method=name)\<close>.\<close>

definition request :: "nat \<Rightarrow> string \<Rightarrow> json list \<Rightarrow> json" where
  "request i name params =
     JObj [(''id'', JInt (int i)), (''params'', JArr params), (''method'', JStr name)]"

text \<open>
  Lines 44 to 46: the argument of the exception raised on an id mismatch,
  \<^verbatim>\<open>"expected id=%s, received id=%s: %s" % (request id, response id, response error)\<close>.
\<close>

definition mismatch_message :: "codec \<Rightarrow> nat \<Rightarrow> (string \<times> json) list \<Rightarrow> string" where
  "mismatch_message cd i response =
     ''expected id='' @ str_of cd (JInt (int i)) @
     '', received id='' @ str_of cd (dict_get response ''id'') @
     '': '' @ str_of cd (dict_get response ''error'')"

text \<open>
  \<^verbatim>\<open>JSONClient.call\<close> (lines 33 to 51). The result comes with the client as the
  call leaves it: what was done before a \<^verbatim>\<open>raise\<close> (the id taken, the request
  written, the bytes read) stays done. One \<^verbatim>\<open>recv(4096)\<close> is issued, as in the
  source. \<^verbatim>\<open>response.get\<close> exists on a \<^verbatim>\<open>dict\<close> only.
\<close>

definition call :: "codec \<Rightarrow> JSONClient \<Rightarrow> string \<Rightarrow> json list \<Rightarrow> (error + json) \<times> JSONClient" where
  "call cd self name params =
     (let i = id_counter self;
          self1 = self\<lparr>id_counter := Suc i\<rparr>
      in case sendall (dumps cd (request i name params)) (sock self1) of
           (Inl e, s1) \<Rightarrow> (Inl e, self1\<lparr>sock := s1\<rparr>)
         | (Inr _, s1) \<Rightarrow>
             (case recv 4096 s1 of
                (Inl e, s2) \<Rightarrow> (Inl e, self1\<lparr>sock := s2\<rparr>)
              | (Inr b, s2) \<Rightarrow>
                  (case loads cd b of
                     None \<Rightarrow> (Inl ValueError, self1\<lparr>sock := s2\<rparr>)
                   | Some (JObj response) \<Rightarrow>
                       (if \<not> py_eq_int (dict_get response ''id'') (int i)
                        then (Inl (Exception (JStr (mismatch_message cd i response))),
                              self1\<lparr>sock := s2\<rparr>)
                        else if dict_get response ''error'' \<noteq> JNull
                        then (Inl (Exception (dict_get response ''error'')), self1\<lparr>sock := s2\<rparr>)
                        else (Inr (dict_get response ''result''), self1\<lparr>sock := s2\<rparr>))
                   | Some _ \<Rightarrow> (Inl AttributeError, self1\<lparr>sock := s2\<rparr>))))"

section \<open>A concrete codec\<close>

text \<open>
  An executable instance of the three runtime functions, for evaluating the model at
  concrete inputs. It follows CPython on integers, \<^verbatim>\<open>null\<close>, \<^verbatim>\<open>true\<close>, \<^verbatim>\<open>false\<close>,
  lists, objects and strings of printable ASCII without quotes and backslashes:
  \<open>json_dumps\<close> writes the default separators \<^verbatim>\<open>", "\<close> and \<^verbatim>\<open>": "\<close>;
  \<open>json_loads\<close> is a recursive-descent reader in which a later duplicate key
  replaces the value of the earlier one in place, as a \<^verbatim>\<open>dict\<close> does, and which
  answers \<open>None\<close> on anything it cannot read to the end (escapes and fractions are
  outside the fragment); \<open>py_str\<close> is \<^verbatim>\<open>str\<close>, with \<open>py_repr\<close> inside containers.
  The first argument of \<open>value_at\<close> bounds the nesting depth; \<open>json_loads\<close> passes
  more than the input is long.
\<close>

definition is_ws :: "char \<Rightarrow> bool" where
  "is_ws c = (c = CHR 0x20 \<or> c = CHR 0x09 \<or> c = CHR 0x0A \<or> c = CHR 0x0D)"

definition is_digit :: "char \<Rightarrow> bool" where
  "is_digit c = (48 \<le> (of_char c :: nat) \<and> (of_char c :: nat) \<le> 57)"

fun skip_ws :: "string \<Rightarrow> string" where
  "skip_ws [] = []"
| "skip_ws (c # cs) = (if is_ws c then skip_ws cs else c # cs)"

definition digits_value :: "string \<Rightarrow> nat" where
  "digits_value ds = foldl (\<lambda>a c. 10 * a + (of_char c - 48)) 0 ds"

function str_nat :: "nat \<Rightarrow> string" where
  "str_nat n =
     (if n < 10 then [''0123456789'' ! n] else str_nat (n div 10) @ [''0123456789'' ! (n mod 10)])"
  by pat_completeness auto
termination
  by (relation "measure id") auto

definition str_int :: "int \<Rightarrow> string" where
  "str_int i = (if i < 0 then CHR ''-'' # str_nat (nat (- i)) else str_nat (nat i))"

fun join :: "string \<Rightarrow> string list \<Rightarrow> string" where
  "join sep [] = []"
| "join sep [x] = x"
| "join sep (x # y # ys) = x @ sep @ join sep (y # ys)"

definition quote :: "string \<Rightarrow> string" where
  "quote s = CHR 0x22 # s @ [CHR 0x22]"

primrec json_dumps :: "json \<Rightarrow> string" where
  "json_dumps JNull = ''null''"
| "json_dumps (JBool b) = (if b then ''true'' else ''false'')"
| "json_dumps (JInt n) = str_int n"
| "json_dumps (JStr s) = quote s"
| "json_dumps (JArr xs) = ''['' @ join '', '' (map json_dumps xs) @ '']''"
| "json_dumps (JObj d) =
     ''{'' @ join '', '' (map (\<lambda>kv. quote (fst kv) @ '': '' @ snd kv) (map (map_prod id json_dumps) d)) @ ''}''"

fun string_body :: "string \<Rightarrow> (string \<times> string) option" where
  "string_body [] = None"
| "string_body (c # cs) =
     (if c = CHR 0x22 then Some ([], cs)
      else if c = CHR 0x5C \<or> (of_char c :: nat) < 32 \<or> 127 \<le> (of_char c :: nat) then None
      else (case string_body cs of None \<Rightarrow> None | Some (s, r) \<Rightarrow> Some (c # s, r)))"

definition number :: "string \<Rightarrow> (int \<times> string) option" where
  "number s =
     (let neg = (s \<noteq> [] \<and> hd s = CHR ''-'');
          t = (if neg then tl s else s);
          ds = (if t \<noteq> [] \<and> hd t = CHR ''0'' then ''0'' else takeWhile is_digit t);
          r = drop (length ds) t
      in if ds = [] \<or> (r \<noteq> [] \<and> hd r \<in> set ''.eE'') then None
         else Some ((if neg then - int (digits_value ds) else int (digits_value ds)), r))"

fun value_at :: "nat \<Rightarrow> string \<Rightarrow> (json \<times> string) option"
  and items_at :: "nat \<Rightarrow> string \<Rightarrow> (json list \<times> string) option"
  and members_at :: "nat \<Rightarrow> string \<Rightarrow> ((string \<times> json) list \<times> string) option"
where
  "value_at 0 s = None"
| "value_at (Suc n) s =
     (case skip_ws s of
        [] \<Rightarrow> None
      | c # cs \<Rightarrow>
          if c = CHR 0x7B then
            (case skip_ws cs of
               [] \<Rightarrow> None
             | d # ds \<Rightarrow>
                 if d = CHR 0x7D then Some (JObj [], ds)
                 else (case members_at n (d # ds) of
                         None \<Rightarrow> None
                       | Some (kvs, r) \<Rightarrow> Some (JObj (foldl (\<lambda>acc kv. AList.update (fst kv) (snd kv) acc) [] kvs), r)))
          else if c = CHR 0x5B then
            (case skip_ws cs of
               [] \<Rightarrow> None
             | d # ds \<Rightarrow>
                 if d = CHR 0x5D then Some (JArr [], ds)
                 else (case items_at n (d # ds) of
                         None \<Rightarrow> None
                       | Some (xs, r) \<Rightarrow> Some (JArr xs, r)))
          else if c = CHR 0x22 then
            (case string_body cs of None \<Rightarrow> None | Some (t, r) \<Rightarrow> Some (JStr t, r))
          else if take 4 (c # cs) = ''null'' then Some (JNull, drop 4 (c # cs))
          else if take 4 (c # cs) = ''true'' then Some (JBool True, drop 4 (c # cs))
          else if take 5 (c # cs) = ''false'' then Some (JBool False, drop 5 (c # cs))
          else (case number (c # cs) of None \<Rightarrow> None | Some (i, r) \<Rightarrow> Some (JInt i, r)))"
| "items_at 0 s = None"
| "items_at (Suc n) s =
     (case value_at n s of
        None \<Rightarrow> None
      | Some (x, r) \<Rightarrow>
          (case skip_ws r of
             [] \<Rightarrow> None
           | c # cs \<Rightarrow>
               if c = CHR 0x5D then Some ([x], cs)
               else if c = CHR 0x2C then
                 (case items_at n cs of None \<Rightarrow> None | Some (xs, r') \<Rightarrow> Some (x # xs, r'))
               else None))"
| "members_at 0 s = None"
| "members_at (Suc n) s =
     (case skip_ws s of
        [] \<Rightarrow> None
      | q # qs \<Rightarrow>
          if q \<noteq> CHR 0x22 then None
          else (case string_body qs of
                  None \<Rightarrow> None
                | Some (k, r) \<Rightarrow>
                    (case skip_ws r of
                       [] \<Rightarrow> None
                     | c # cs \<Rightarrow>
                         if c \<noteq> CHR 0x3A then None
                         else (case value_at n cs of
                                 None \<Rightarrow> None
                               | Some (v, r') \<Rightarrow>
                                   (case skip_ws r' of
                                      [] \<Rightarrow> None
                                    | e # es \<Rightarrow>
                                        if e = CHR 0x7D then Some ([(k, v)], es)
                                        else if e = CHR 0x2C then
                                          (case members_at n es of
                                             None \<Rightarrow> None
                                           | Some (kvs, r'') \<Rightarrow> Some ((k, v) # kvs, r''))
                                        else None)))))"

definition json_loads :: "string \<Rightarrow> json option" where
  "json_loads s =
     (case value_at (Suc (length s)) s of
        None \<Rightarrow> None
      | Some (v, r) \<Rightarrow> if skip_ws r = [] then Some v else None)"

primrec py_repr :: "json \<Rightarrow> string" where
  "py_repr JNull = ''None''"
| "py_repr (JBool b) = (if b then ''True'' else ''False'')"
| "py_repr (JInt n) = str_int n"
| "py_repr (JStr s) = CHR 0x27 # s @ [CHR 0x27]"
| "py_repr (JArr xs) = ''['' @ join '', '' (map py_repr xs) @ '']''"
| "py_repr (JObj d) =
     ''{'' @ join '', '' (map (\<lambda>kv. (CHR 0x27 # fst kv @ [CHR 0x27]) @ '': '' @ snd kv)
                              (map (map_prod id py_repr) d)) @ ''}''"

definition py_str :: "json \<Rightarrow> string" where
  "py_str v = (case v of JStr s \<Rightarrow> s | _ \<Rightarrow> py_repr v)"

definition py_codec :: codec where
  "py_codec = \<lparr>dumps = json_dumps, loads = json_loads, str_of = py_str\<rparr>"

section \<open>The world outside the plugin\<close>

text \<open>
  A session record is the \<^verbatim>\<open>dict\<close> that \<^verbatim>\<open>launch\<close> stores under the session key
  (lines 164 to 171).
\<close>

record session =
  program :: string
  pid :: nat
  host :: string
  port :: nat
  addr :: string
  desc :: string

text \<open>
  What the plugin does to its surroundings, in the order it does it: a message
  handed to \<^verbatim>\<open>Logger.log\<close> (the format string; the arguments are not kept), a
  \<^verbatim>\<open>socket.create_connection\<close> to a host and port, the port the operating system
  gave to a socket bound to port 0, a child process started with its command,
  arguments and process id, a write of the setting
  \<^verbatim>\<open>gotools.debugger.sessions\<close>, an \<^verbatim>\<open>os.kill(pid, SIGKILL)\<close> and an
  \<^verbatim>\<open>os.waitpid(pid, WNOHANG)\<close>.
\<close>

datatype event =
    Log string
  | Connect string nat
  | Bind nat
  | Spawn string "string list" nat
  | SetSessions "(string \<times> session) list"
  | Kill nat
  | Waitpid nat

text \<open>
  The surroundings: the paths that name regular files; for each reachable
  endpoint, whether a connection to it stays usable and what the debugger
  delivers on it; the descriptor of the next connection; the ports the operating
  system hands out next; the next process id; the processes that exist; the
  children not yet reaped; the source of \<^verbatim>\<open>uuid.uuid4().hex\<close> values and how many
  were drawn; the stored setting (\<open>None\<close> while it was never written); the trace.
\<close>

record world =
  files :: "string list"
  servers :: "((string \<times> nat) \<times> (bool \<times> string list)) list"
  next_fd :: nat
  free_ports :: "nat list"
  next_pid :: nat
  running :: "nat list"
  children :: "nat list"
  uuid_hex :: "nat \<Rightarrow> string"
  uuid_count :: nat
  sessions_setting :: "(string \<times> session) list option"
  trace :: "event list"

text \<open>
  Modelled from the spec: \<^verbatim>\<open>Logger.log\<close> of \<^verbatim>\<open>gotools_util\<close>, which is not among the
  sources ("single-argument formatted-message sink, fire-and-forget, no return
  value").
\<close>

definition Logger_log :: "string \<Rightarrow> world \<Rightarrow> world" where
  "Logger_log msg w = w\<lparr>trace := trace w @ [Log msg]\<rparr>"

text \<open>
  Modelled from the spec: \<^verbatim>\<open>ToolRunner.run_nonblock\<close> of \<^verbatim>\<open>gotools_util\<close>, which is
  not among the sources ("spawns the debugger as a detached child process ...
  does not block waiting for the child"; the result carries the child's \<^verbatim>\<open>pid\<close>).
\<close>

definition run_nonblock :: "string \<Rightarrow> string list \<Rightarrow> world \<Rightarrow> nat \<times> world" where
  "run_nonblock cmd args w =
     (next_pid w,
      w\<lparr>next_pid := Suc (next_pid w),
        running := next_pid w # running w,
        children := next_pid w # children w,
        trace := trace w @ [Spawn cmd args (next_pid w)]\<rparr>)"

definition os_path_isfile :: "world \<Rightarrow> string \<Rightarrow> bool" where
  "os_path_isfile w p = (p \<in> set (files w))"

text \<open>\<^verbatim>\<open>uuid.uuid4().hex[0:10]\<close>.\<close>

definition uuid4_hex10 :: "world \<Rightarrow> string \<times> world" where
  "uuid4_hex10 w = (take 10 (uuid_hex w (uuid_count w)), w\<lparr>uuid_count := Suc (uuid_count w)\<rparr>)"

text \<open>
  Lines 152 to 156: bind a socket to port 0, listen, read the port back, close.
  With no port to give, \<^verbatim>\<open>bind\<close> raises.
\<close>

definition find_port :: "world \<Rightarrow> (error + nat) \<times> world" where
  "find_port w =
     (case free_ports w of
        [] \<Rightarrow> (Inl OSError, w)
      | p # ps \<Rightarrow> (Inr p, w\<lparr>free_ports := ps, trace := trace w @ [Bind p]\<rparr>))"

text \<open>
  \<^verbatim>\<open>os.kill(pid, signal.SIGKILL)\<close> raises \<^verbatim>\<open>ProcessLookupError\<close> when no such process
  exists; \<^verbatim>\<open>os.waitpid(pid, os.WNOHANG)\<close> raises \<^verbatim>\<open>ChildProcessError\<close> when the
  process is not a child of the caller.
\<close>

definition os_kill :: "nat \<Rightarrow> world \<Rightarrow> (error + unit) \<times> world" where
  "os_kill p w =
     (if p \<in> set (running w)
      then (Inr (), w\<lparr>running := removeAll p (running w), trace := trace w @ [Kill p]\<rparr>)
      else (Inl ProcessLookupError, w\<lparr>trace := trace w @ [Kill p]\<rparr>))"

definition os_waitpid :: "nat \<Rightarrow> world \<Rightarrow> (error + unit) \<times> world" where
  "os_waitpid p w =
     (if p \<in> set (children w)
      then (Inr (), w\<lparr>children := removeAll p (children w), trace := trace w @ [Waitpid p]\<rparr>)
      else (Inl ChildProcessError, w\<lparr>trace := trace w @ [Waitpid p]\<rparr>))"

text \<open>
  \<^verbatim>\<open>self.window.settings().get("gotools.debugger.sessions", {})\<close> and
  \<^verbatim>\<open>self.window.settings().set("gotools.debugger.sessions", sessions)\<close>.
\<close>

definition settings_get :: "world \<Rightarrow> (string \<times> session) list" where
  "settings_get w = (case sessions_setting w of None \<Rightarrow> [] | Some d \<Rightarrow> d)"

definition settings_set :: "(string \<times> session) list \<Rightarrow> world \<Rightarrow> world" where
  "settings_set d w = w\<lparr>sessions_setting := Some d, trace := trace w @ [SetSessions d]\<rparr>"

text \<open>
  \<^verbatim>\<open>JSONClient.__init__\<close> (lines 25 to 27): \<^verbatim>\<open>socket.create_connection(addr)\<close>, which
  raises when nothing listens there, and a fresh \<^verbatim>\<open>itertools.count()\<close>.
\<close>

definition JSONClient_init :: "string \<times> nat \<Rightarrow> world \<Rightarrow> (error + JSONClient) \<times> world" where
  "JSONClient_init a w =
     (case map_of (servers w) a of
        None \<Rightarrow> (Inl ConnectionRefusedError, w\<lparr>trace := trace w @ [Connect (fst a) (snd a)]\<rparr>)
      | Some sv \<Rightarrow>
          (Inr \<lparr>sock = \<lparr>fd = next_fd w, up = fst sv, inbound = snd sv, outbound = []\<rparr>,
                id_counter = 0\<rparr>,
           w\<lparr>next_fd := Suc (next_fd w), trace := trace w @ [Connect (fst a) (snd a)]\<rparr>))"

section \<open>DebuggingSession\<close>

text \<open>
  The object of lines 53 to 100. \<open>rpc_slot\<close> is the attribute \<^verbatim>\<open>_rpc\<close>; the other
  fields are copied out of the session record by \<^verbatim>\<open>__init__\<close>.
\<close>

record DebuggingSession =
  rpc_slot :: "JSONClient option"
  session_key :: string
  pid :: nat
  host :: string
  port :: nat
  addr :: string

definition DebuggingSession_init :: "string \<Rightarrow> session \<Rightarrow> DebuggingSession" where
  "DebuggingSession_init key s =
     \<lparr>rpc_slot = None, session_key = key, pid = session.pid s, host = session.host s,
      port = session.port s, addr = session.addr s\<rparr>"

text \<open>
  The property \<^verbatim>\<open>rpc\<close> (lines 62 to 67). A \<^verbatim>\<open>JSONClient\<close> defines neither
  \<^verbatim>\<open>__bool__\<close> nor \<^verbatim>\<open>__len__\<close>, so \<^verbatim>\<open>if self._rpc\<close> holds exactly when the
  attribute is not \<^verbatim>\<open>None\<close>. When the constructor raises, the attribute stays
  \<^verbatim>\<open>None\<close>.
\<close>

definition rpc :: "DebuggingSession \<Rightarrow> world \<Rightarrow> (error + JSONClient) \<times> DebuggingSession \<times> world" where
  "rpc self w =
     (case rpc_slot self of
        Some c \<Rightarrow> (Inr c, self, w)
      | None \<Rightarrow>
          (case JSONClient_init (host self, port self) w of
             (Inl e, w1) \<Rightarrow> (Inl e, self, w1)
           | (Inr c, w1) \<Rightarrow> (Inr c, self\<lparr>rpc_slot := Some c\<rparr>, w1)))"

text \<open>\<^verbatim>\<open>self.rpc.call(name, *params)\<close> with the parameters already evaluated.\<close>

definition rpc_call ::
  "codec \<Rightarrow> DebuggingSession \<Rightarrow> world \<Rightarrow> string \<Rightarrow> json list \<Rightarrow>
   (error + json) \<times> DebuggingSession \<times> world" where
  "rpc_call cd self w name params =
     (case rpc self w of
        (Inl e, self1, w1) \<Rightarrow> (Inl e, self1, w1)
      | (Inr c, self1, w1) \<Rightarrow>
          (case call cd c name params of
             (r, c') \<Rightarrow> (r, self1\<lparr>rpc_slot := Some c'\<rparr>, w1)))"

text \<open>\<^verbatim>\<open>get_breakpoints\<close> (lines 78 to 79).\<close>

definition get_breakpoints ::
  "codec \<Rightarrow> DebuggingSession \<Rightarrow> world \<Rightarrow> (error + json) \<times> DebuggingSession \<times> world" where
  "get_breakpoints cd self w = rpc_call cd self w ''RPCServer.ListBreakpoints'' []"


text \<open>
  The loop of lines 84 to 87 over the items of \<^verbatim>\<open>bps\<close>: the first item whose
  \<^verbatim>\<open>file\<close> and \<^verbatim>\<open>line\<close> equal the arguments ends it. \<^verbatim>\<open>and\<close> does not look at
  \<^verbatim>\<open>bp['line']\<close> once the files differ.
\<close>

fun scan :: "json list \<Rightarrow> string \<Rightarrow> int \<Rightarrow> error + json option" where
  "scan [] filename line = Inr None"
| "scan (bp # bps) filename line =
     (case subscript bp ''file'' of
        Inl e \<Rightarrow> Inl e
      | Inr f \<Rightarrow>
          if py_eq_str f filename then
            (case subscript bp ''line'' of
               Inl e \<Rightarrow> Inl e
             | Inr l \<Rightarrow> if py_eq_int l line then Inr (Some bp) else scan bps filename line)
          else scan bps filename line)"

text \<open>
  \<^verbatim>\<open>clear_breakpoint\<close> (lines 81 to 93). In \<^verbatim>\<open>self.rpc.call(..., bp["id"])\<close> the
  property is read before the argument is evaluated.
\<close>

definition clear_breakpoint ::
  "codec \<Rightarrow> DebuggingSession \<Rightarrow> world \<Rightarrow> string \<Rightarrow> int \<Rightarrow>
   (error + unit) \<times> DebuggingSession \<times> world" where
  "clear_breakpoint cd self w filename line =
     (case get_breakpoints cd self w of
        (Inl e, self1, w1) \<Rightarrow> (Inl e, self1, w1)
      | (Inr bps, self1, w1) \<Rightarrow>
          (case py_iter bps of
             Inl e \<Rightarrow> (Inl e, self1, w1)
           | Inr items \<Rightarrow>
               (case scan items filename line of
                  Inl e \<Rightarrow> (Inl e, self1, w1)
                | Inr None \<Rightarrow>
                    (Inr (), self1, Logger_log ''no breakpoint found at {0}:{1}'' w1)
                | Inr (Some bp) \<Rightarrow>
                    if \<not> py_bool bp
                    then (Inr (), self1, Logger_log ''no breakpoint found at {0}:{1}'' w1)
                    else
                      (case rpc self1 w1 of
                         (Inl e, self2, w2) \<Rightarrow> (Inl e, self2, w2)
                       | (Inr c, self2, w2) \<Rightarrow>
                           (case subscript bp ''id'' of
                              Inl e \<Rightarrow> (Inl e, self2, w2)
                            | Inr bid \<Rightarrow>
                                (case call cd c ''RPCServer.ClearBreakpoint'' [bid] of
                                   (Inl e, c') \<Rightarrow> (Inl e, self2\<lparr>rpc_slot := Some c'\<rparr>, w2)
                                 | (Inr _, c') \<Rightarrow>
                                     (case get_breakpoints cd (self2\<lparr>rpc_slot := Some c'\<rparr>)
                                             (Logger_log ''cleared breakpoint '{0}' at {1}:{2}'' w2) of
                                        (Inl e, self3, w3) \<Rightarrow> (Inl e, self3, w3)
                                      | (Inr _, self3, w3) \<Rightarrow>
                                          (Inr (), self3,
                                           Logger_log ''current breakpoints: {0}'' w3))))))))"


section \<open>GotoolsDebugCommand\<close>

text \<open>
  The state the command works on: the surroundings and the class attribute
  \<^verbatim>\<open>ActiveSession\<close>.
\<close>

record plugin =
  env :: world
  ActiveSession :: "DebuggingSession option"

text \<open>\<^verbatim>\<open>attach\<close> (lines 208 to 217).\<close>

definition attach :: "plugin \<Rightarrow> string \<Rightarrow> (error + unit) \<times> plugin" where
  "attach g key =
     (case map_of (settings_get (env g)) key of
        None \<Rightarrow> (Inr (), g\<lparr>env := Logger_log ''no session '{0}' found'' (env g)\<rparr>)
      | Some s \<Rightarrow>
          (Inr (),
           g\<lparr>ActiveSession := Some (DebuggingSession_init key s),
             env := Logger_log ''debugger attached to session: {0}'' (env g)\<rparr>))"

text \<open>
  \<^verbatim>\<open>launch\<close> (lines 143 to 174). \<^verbatim>\<open>not key\<close> holds for \<^verbatim>\<open>None\<close> and for the empty
  string.
\<close>

definition launch :: "plugin \<Rightarrow> string \<Rightarrow> string option \<Rightarrow> string \<Rightarrow> (error + unit) \<times> plugin" where
  "launch g path key label =
     (if \<not> os_path_isfile (env g) path
      then (Inr (), g\<lparr>env := Logger_log ''build completed but {0} doesn't exist'' (env g)\<rparr>)
      else
        (case (case key of
                 None \<Rightarrow> uuid4_hex10 (env g)
               | Some k \<Rightarrow> if k = [] then uuid4_hex10 (env g) else (k, env g)) of
           (key1, w1) \<Rightarrow>
             (case find_port w1 of
                (Inl e, w2) \<Rightarrow> (Inl e, g\<lparr>env := w2\<rparr>)
              | (Inr n, w2) \<Rightarrow>
                  (let h = ''localhost'';
                       a = h @ '':'' @ str_nat n
                   in case run_nonblock ''dlv''
                             [''--headless=true'', ''--listen='' @ a, ''exec'', path] w2 of
                        (proc_pid, w3) \<Rightarrow>
                          (let sessions =
                                 AList.update key1
                                   \<lparr>program = path, pid = proc_pid, host = h,
                                    port = n, addr = a, desc = label\<rparr>
                                   (settings_get w3);
                               w4 = settings_set sessions w3;
                               w5 = Logger_log
                                      ''created new debugger session. current sessions: {0}'' w4
                           in attach (g\<lparr>env := w5\<rparr>) key1)))))"

text \<open>
  \<^verbatim>\<open>stop\<close> (lines 179 to 196). \<^verbatim>\<open>except Exception\<close> catches whatever \<^verbatim>\<open>os.kill\<close>
  and \<^verbatim>\<open>os.waitpid\<close> raise.
\<close>

definition stop :: "plugin \<Rightarrow> string \<Rightarrow> (error + unit) \<times> plugin" where
  "stop g key =
     (let sessions = settings_get (env g)
      in case map_of sessions key of
           None \<Rightarrow> (Inr (), g\<lparr>env := Logger_log ''no session '{0}' found'' (env g)\<rparr>)
         | Some s \<Rightarrow>
             (let w1 = Logger_log ''stopping session: {0}'' (env g);
                  p = session.pid s;
                  w2 = settings_set (AList.delete key sessions) w1;
                  w3 = (case os_kill p w2 of
                          (Inl e, wk) \<Rightarrow>
                            Logger_log
                              ''warning: couldn't kill pid {0} debugging session pid {1}: {2}'' wk
                        | (Inr _, wk) \<Rightarrow>
                            (case os_waitpid p wk of
                               (Inl e, ww) \<Rightarrow>
                                 Logger_log
                                   ''warning: couldn't kill pid {0} debugging session pid {1}: {2}''
                                   ww
                             | (Inr _, ww) \<Rightarrow>
                                 Logger_log ''killed pid {0} for debugging session {1}'' ww))
              in (Inr (), g\<lparr>env := Logger_log ''deleted session {0}'' w3\<rparr>)))"

text \<open>\<^verbatim>\<open>stop_active_session\<close> (lines 198 to 206).\<close>

definition stop_active_session :: "plugin \<Rightarrow> (error + unit) \<times> plugin" where
  "stop_active_session g =
     (case ActiveSession g of
        None \<Rightarrow> (Inr (), g\<lparr>env := Logger_log ''no debugging session is active'' (env g)\<rparr>)
      | Some a \<Rightarrow>
          (case stop g (session_key a) of
             (Inl e, g1) \<Rightarrow>
               (Inr (), g1\<lparr>env := Logger_log ''couldn't stop active session: {0}'' (env g1)\<rparr>)
           | (Inr _, g1) \<Rightarrow> (Inr (), g1\<lparr>ActiveSession := None\<rparr>)))"

section \<open>Sequences of invocations\<close>

text \<open>
  Successive \<^verbatim>\<open>call\<close> invocations on one transport, each given by its method name
  and parameters, whatever each of them returns or raises.
\<close>

fun calls :: "codec \<Rightarrow> JSONClient \<Rightarrow> (string \<times> json list) list \<Rightarrow> JSONClient" where
  "calls cd c [] = c"
| "calls cd c (np # rest) = calls cd (snd (call cd c (fst np) (snd np))) rest"

text \<open>
  Successive operations on one \<^verbatim>\<open>DebuggingSession\<close> object, whatever each of them
  returns or raises.
\<close>

datatype operation =
    AddBreakpoint string int
  | GetBreakpoints
  | ClearBreakpoint string int
  | Cont



section \<open>Observations on a session\<close>

text \<open>
  A breakpoint as the debugger lists it: an object with the keys \<^verbatim>\<open>id\<close>, \<^verbatim>\<open>file\<close>
  and \<^verbatim>\<open>line\<close>. \<open>bp_at\<close> says that it sits at a file and line, \<open>bp_id\<close> is its id.
\<close>

definition is_breakpoint :: "json \<Rightarrow> bool" where
  "is_breakpoint bp =
     (case bp of
        JObj d \<Rightarrow> map_of d ''id'' \<noteq> None \<and> map_of d ''file'' \<noteq> None \<and> map_of d ''line'' \<noteq> None
      | _ \<Rightarrow> False)"

definition bp_at :: "string \<Rightarrow> int \<Rightarrow> json \<Rightarrow> bool" where
  "bp_at filename line bp =
     (case bp of
        JObj d \<Rightarrow> py_eq_str (dict_get d ''file'') filename \<and> py_eq_int (dict_get d ''line'') line
      | _ \<Rightarrow> False)"

definition bp_id :: "json \<Rightarrow> json" where
  "bp_id bp = (case bp of JObj d \<Rightarrow> dict_get d ''id'' | _ \<Rightarrow> JNull)"

text \<open>Everything the session's transport has written so far, oldest first.\<close>

definition sent :: "DebuggingSession \<Rightarrow> string list" where
  "sent self = (case rpc_slot self of None \<Rightarrow> [] | Some c \<Rightarrow> outbound (sock c))"



section \<open>Fixtures\<close>

text \<open>
  A transport just built on descriptor 3 over a working connection on which the
  given segments arrive.
\<close>

definition connected :: "string list \<Rightarrow> JSONClient" where
  "connected chunks =
     \<lparr>sock = \<lparr>fd = 3, up = True, inbound = chunks, outbound = []\<rparr>, id_counter = 0\<rparr>"

text \<open>
  Surroundings in which \<^verbatim>\<open>/tmp/a.test\<close> is a file, a debugger that sends nothing
  listens on \<^verbatim>\<open>localhost:40000\<close>, that port is the next one the operating system
  hands out, and nothing has happened yet.
\<close>

definition world0 :: world where
  "world0 =
     \<lparr>files = [''/tmp/a.test''],
      servers = [((''localhost'', 40000), (True, []))],
      next_fd = 3,
      free_ports = [40000],
      next_pid = 100,
      running = [],
      children = [],
      uuid_hex = (\<lambda>n. ''0123456789abcdef0123456789abcdef''),
      uuid_count = 0,
      sessions_setting = None,
      trace = []\<rparr>"

text \<open>
  \<open>world0\<close> after a launch whose debugger, process 4242, has exited since: the
  registry still holds the session \<^verbatim>\<open>a1b2c3d4e5\<close>.
\<close>

definition world1 :: world where
  "world1 =
     world0\<lparr>sessions_setting :=
              Some [(''a1b2c3d4e5'',
                     \<lparr>program = ''/tmp/a.test'', pid = 4242, host = ''localhost'',
                      port = 40000, addr = ''localhost:40000'', desc = ''TestFoo''\<rparr>)]\<rparr>"

text \<open>
  \<open>world0\<close> with a debugger on \<^verbatim>\<open>localhost:40000\<close> that answers three requests: a
  list of two breakpoints, both at \<^verbatim>\<open>/tmp/a.go\<close> line 10, an empty result, and a list
  of one breakpoint. \<open>session1\<close> is a session object just made for that debugger.
\<close>

definition world2 :: world where
  \<open>world2 =
     world0\<lparr>servers :=
       [((''localhost'', 40000),
         (True,
          [''{"id": 0, "result": [{"id": 7, "file": "/tmp/a.go", "line": 10}, '' @
           ''{"id": 8, "file": "/tmp/a.go", "line": 10}], "error": null}'',
           ''{"id": 1, "result": null, "error": null}'',
           ''{"id": 2, "result": [{"id": 8, "file": "/tmp/a.go", "line": 10}], "error": null}'']))]\<rparr>\<close>

definition session1 :: DebuggingSession where
  "session1 =
     DebuggingSession_init ''a1b2c3d4e5''
       \<lparr>program = ''/tmp/a.test'', pid = 100, host = ''localhost'',
        port = 40000, addr = ''localhost:40000'', desc = ''TestFoo''\<rparr>"

section \<open>Facts about the socket and call\<close>

lemma recv_up: "recv n s = (Inr b, s') \<Longrightarrow> up s"
  by (auto simp: recv_def split: if_splits)

lemma recv_outbound:
  "recv n (s\<lparr>outbound := x\<rparr>) = (fst (recv n s), (snd (recv n s))\<lparr>outbound := x\<rparr>)"
  by (simp add: recv_def split: list.splits)

lemma recv_keeps: "recv n s = (r, s') \<Longrightarrow> up s' = up s \<and> outbound s' = outbound s \<and> fd s' = fd s"
  by (auto simp: recv_def split: if_splits list.splits)

text \<open>What call does once its single read has returned bytes that decode to an object.\<close>

lemma call_decoded:
  assumes "recv 4096 (sock c) = (Inr b, s')"
    and "loads cd b = Some (JObj response)"
  shows "call cd c name params =
     ((if \<not> py_eq_int (dict_get response ''id'') (int (id_counter c))
       then Inl (Exception (JStr (mismatch_message cd (id_counter c) response)))
       else if dict_get response ''error'' \<noteq> JNull
       then Inl (Exception (dict_get response ''error''))
       else Inr (dict_get response ''result'')),
      c\<lparr>id_counter := Suc (id_counter c),
        sock := s'\<lparr>outbound := outbound s' @ [dumps cd (request (id_counter c) name params)]\<rparr>\<rparr>)"
proof -
  have u: "up (sock c)" using assms(1) by (rule recv_up)
  have o: "outbound s' = outbound (sock c)" using recv_keeps [OF assms(1)] by simp
  show ?thesis
    using assms u o by (simp add: call_def sendall_def recv_outbound Let_def)
qed

lemma call_undecodable:
  assumes "recv 4096 (sock c) = (Inr b, s')"
    and "loads cd b = None"
  shows "fst (call cd c name params) = Inl ValueError"
proof -
  have u: "up (sock c)" using assms(1) by (rule recv_up)
  show ?thesis
    using assms u by (simp add: call_def sendall_def recv_outbound Let_def)
qed

lemma call_id_counter: "id_counter (snd (call cd c name params)) = Suc (id_counter c)"
  by (simp add: call_def sendall_def Let_def split: prod.splits sum.splits option.splits json.splits)

lemma call_up: "up (sock (snd (call cd c name params))) = up (sock c)"
  by (auto simp: call_def sendall_def recv_def Let_def split: prod.splits sum.splits option.splits json.splits if_splits list.splits)


lemma call_outbound:
  "outbound (sock (snd (call cd c name params))) =
     outbound (sock c) @ (if up (sock c) then [dumps cd (request (id_counter c) name params)] else [])"
  by (auto simp: call_def sendall_def recv_def Let_def split: prod.splits sum.splits option.splits json.splits if_splits list.splits)

lemma calls_id_counter: "id_counter (calls cd c reqs) = id_counter c + length reqs"
  by (induction reqs arbitrary: c) (simp_all add: call_id_counter)

lemma calls_up: "up (sock (calls cd c reqs)) = up (sock c)"
  by (induction reqs arbitrary: c) (simp_all add: call_up)

lemma calls_outbound:
  "outbound (sock (calls cd c reqs)) =
     outbound (sock c) @
     (if up (sock c)
      then map (\<lambda>inp. dumps cd (request (fst inp) (fst (snd inp)) (snd (snd inp))))
             (zip [id_counter c ..< id_counter c + length reqs] reqs)
      else [])"
proof (induction reqs arbitrary: c)
  case Nil
  show ?case by simp
next
  case (Cons np reqs)
  have "[id_counter c ..< id_counter c + length (np # reqs)] =
        id_counter c # [Suc (id_counter c) ..< Suc (id_counter c) + length reqs]"
    by (simp add: upt_rec)
  then show ?case
    by (simp add: Cons.IH call_outbound call_up call_id_counter)
qed

lemmas codec_eval = py_codec_def json_loads_def is_ws_def is_digit_def number_def digits_value_def
  py_str_def str_int_def quote_def

section \<open>The transport: correlation and errors\<close>

text \<open>
  C3, as stated: a response whose id differs from the id of the request makes
  the call raise a \<^verbatim>\<open>ProtocolError\<close>. The source has no such type. Line 44 raises
  the built-in \<^verbatim>\<open>Exception\<close>, the class that line 49 raises for an error reported
  by the debugger: the answer with id 7 to request 0 raises the very value that an
  answer with id 0 and that message as its \<^verbatim>\<open>error\<close> raises, so a caller cannot
  tell the two apart. And line 43 compares with Python's \<^verbatim>\<open>!=\<close>, under which
  \<^verbatim>\<open>False\<close> equals 0: an answer whose id is \<^verbatim>\<open>false\<close> is taken as the answer to
  request 0.
\<close>

theorem call_id_mismatch_untyped:
  \<open>fst (call py_codec (connected [''{"id": 7, "result": [], "error": null}''])
          ''RPCServer.ListBreakpoints'' []) =
     Inl (Exception (JStr ''expected id=0, received id=7: None''))
   \<and> fst (call py_codec
          (connected [''{"id": 0, "result": null, "error": "expected id=0, received id=7: None"}''])
          ''RPCServer.ListBreakpoints'' []) =
     Inl (Exception (JStr ''expected id=0, received id=7: None''))
   \<and> fst (call py_codec (connected [''{"id": false, "result": [], "error": null}''])
          ''RPCServer.ListBreakpoints'' []) =
     Inr (JArr [])\<close>
proof -
  let ?b1 = \<open>''{"id": 7, "result": [], "error": null}''\<close>
  let ?r1 = \<open>[(''id'', JInt 7), (''result'', JArr []), (''error'', JNull)]\<close>
  let ?b2 = \<open>''{"id": 0, "result": null, "error": "expected id=0, received id=7: None"}''\<close>
  let ?r2 = \<open>[(''id'', JInt 0), (''result'', JNull),
              (''error'', JStr ''expected id=0, received id=7: None'')]\<close>
  let ?b3 = \<open>''{"id": false, "result": [], "error": null}''\<close>
  let ?r3 = \<open>[(''id'', JBool False), (''result'', JArr []), (''error'', JNull)]\<close>
  let ?s = \<open>\<lparr>fd = 3, up = True, inbound = [], outbound = []\<rparr>\<close>
  have i: "id_counter (connected chunks) = 0" for chunks
    by (simp add: connected_def)
  have r1: "recv 4096 (sock (connected [?b1])) = (Inr ?b1, ?s)"
    by (simp add: connected_def recv_def)
  have l1: "loads py_codec ?b1 = Some (JObj ?r1)"
    by (simp add: codec_eval)
  have m1: "mismatch_message py_codec (id_counter (connected [?b1])) ?r1 =
              ''expected id=0, received id=7: None''"
    by (simp add: mismatch_message_def dict_get_def connected_def codec_eval)
  have p1: "fst (call py_codec (connected [?b1]) ''RPCServer.ListBreakpoints'' []) =
              Inl (Exception (JStr ''expected id=0, received id=7: None''))"
    using m1 i [of "[?b1]"]
    by (simp add: call_decoded [OF r1 l1] py_eq_int_def dict_get_def)
  have r2: "recv 4096 (sock (connected [?b2])) = (Inr ?b2, ?s)"
    by (simp add: connected_def recv_def)
  have l2: "loads py_codec ?b2 = Some (JObj ?r2)"
    by (simp add: codec_eval)
  have p2: "fst (call py_codec (connected [?b2]) ''RPCServer.ListBreakpoints'' []) =
              Inl (Exception (JStr ''expected id=0, received id=7: None''))"
    using i [of "[?b2]"]
    by (simp add: call_decoded [OF r2 l2] py_eq_int_def dict_get_def)
  have r3: "recv 4096 (sock (connected [?b3])) = (Inr ?b3, ?s)"
    by (simp add: connected_def recv_def)
  have l3: "loads py_codec ?b3 = Some (JObj ?r3)"
    by (simp add: codec_eval)
  have p3: "fst (call py_codec (connected [?b3]) ''RPCServer.ListBreakpoints'' []) =
              Inr (JArr [])"
    using i [of "[?b3]"]
    by (simp add: call_decoded [OF r3 l3] py_eq_int_def dict_get_def)
  from p1 p2 p3 show ?thesis by (intro conjI)
qed

text \<open>
  C3, amended. Whenever the read of a call returns bytes that decode to a response
  object whose \<^verbatim>\<open>id\<close> is unequal, by Python's \<^verbatim>\<open>!=\<close> (line 43), to the id the call
  put into its request, the call raises the built-in \<^verbatim>\<open>Exception\<close>, not an error
  type of its own, with the message naming both ids and the response's \<^verbatim>\<open>error\<close>
  as its argument. Nothing is returned as a result, and the bytes read are gone
  from the connection, so that no later call on it meets this response again.
\<close>

theorem call_id_mismatch_raises:
  assumes "recv 4096 (sock c) = (Inr b, s')"
    and "loads cd b = Some (JObj response)"
    and "\<not> py_eq_int (dict_get response ''id'') (int (id_counter c))"
  shows "fst (call cd c name params) =
           Inl (Exception (JStr (mismatch_message cd (id_counter c) response)))
         \<and> inbound (sock (snd (call cd c name params))) = inbound s'"
  using assms(3) by (simp add: call_decoded [OF assms(1,2)])

text \<open>
  The fact above at a response carrying id 7 for the first request of a transport,
  whose id is 0.
\<close>

theorem call_id_mismatch_raises_witness:
  \<open>fst (call py_codec (connected [''{"id": 7, "result": [], "error": null}''])
          ''RPCServer.ListBreakpoints'' []) =
     Inl (Exception (JStr ''expected id=0, received id=7: None''))
   \<and> inbound (sock (snd (call py_codec (connected [''{"id": 7, "result": [], "error": null}''])
          ''RPCServer.ListBreakpoints'' []))) = []\<close>
proof -
  let ?c = \<open>connected [''{"id": 7, "result": [], "error": null}'']\<close>
  let ?r = \<open>[(''id'', JInt 7), (''result'', JArr []), (''error'', JNull)]\<close>
  have r: \<open>recv 4096 (sock ?c) =
      (Inr ''{"id": 7, "result": [], "error": null}'', \<lparr>fd = 3, up = True, inbound = [], outbound = []\<rparr>)\<close>
    by (simp add: connected_def recv_def)
  have l: \<open>loads py_codec ''{"id": 7, "result": [], "error": null}'' = Some (JObj ?r)\<close>
    by (simp add: codec_eval)
  have m: "\<not> py_eq_int (dict_get ?r ''id'') (int (id_counter ?c))"
    by (simp add: py_eq_int_def dict_get_def connected_def)
  have s: "mismatch_message py_codec (id_counter ?c) ?r = ''expected id=0, received id=7: None''"
    by (simp add: mismatch_message_def dict_get_def connected_def codec_eval)
  from call_id_mismatch_raises [OF r l m, of "''RPCServer.ListBreakpoints''" "[]"] s
  show ?thesis by simp
qed

text \<open>
  C4. Whenever the read of a call returns bytes that decode to a response object
  whose \<^verbatim>\<open>id\<close> equals the id of the request: when the response's \<^verbatim>\<open>error\<close> is not
  \<^verbatim>\<open>None\<close> the call raises \<^verbatim>\<open>Exception\<close> with exactly that value as its argument,
  otherwise it returns the response's \<^verbatim>\<open>result\<close>. So the call raises if and only
  if \<^verbatim>\<open>error\<close> is not \<^verbatim>\<open>None\<close>.
\<close>

theorem call_matching_id_result:
  assumes "recv 4096 (sock c) = (Inr b, s')"
    and "loads cd b = Some (JObj response)"
    and "py_eq_int (dict_get response ''id'') (int (id_counter c))"
  shows "fst (call cd c name params) =
           (if dict_get response ''error'' \<noteq> JNull
            then Inl (Exception (dict_get response ''error''))
            else Inr (dict_get response ''result''))
         \<and> (isl (fst (call cd c name params)) \<longleftrightarrow> dict_get response ''error'' \<noteq> JNull)"
  using assms(3) by (simp add: call_decoded [OF assms(1,2)])

text \<open>
  The fact above at a response that carries an error and at one that carries a
  result, both answering the first request of a transport.
\<close>

theorem call_matching_id_result_witness:
  \<open>fst (call py_codec (connected [''{"id": 0, "result": null, "error": "no such file"}''])
          ''RPCServer.CreateBreakpoint'' [JObj [(''file'', JStr ''/tmp/a.go''), (''line'', JInt 10)]]) =
     Inl (Exception (JStr ''no such file''))
   \<and> fst (call py_codec (connected [''{"id": 0, "result": {"id": 4}, "error": null}''])
          ''RPCServer.CreateBreakpoint'' [JObj [(''file'', JStr ''/tmp/a.go''), (''line'', JInt 10)]]) =
     Inr (JObj [(''id'', JInt 4)])\<close>
proof -
  let ?p = \<open>[JObj [(''file'', JStr ''/tmp/a.go''), (''line'', JInt 10)]]\<close>
  let ?b1 = \<open>''{"id": 0, "result": null, "error": "no such file"}''\<close>
  let ?r1 = \<open>[(''id'', JInt 0), (''result'', JNull), (''error'', JStr ''no such file'')]\<close>
  let ?b2 = \<open>''{"id": 0, "result": {"id": 4}, "error": null}''\<close>
  let ?r2 = \<open>[(''id'', JInt 0), (''result'', JObj [(''id'', JInt 4)]), (''error'', JNull)]\<close>
  let ?s = \<open>\<lparr>fd = 3, up = True, inbound = [], outbound = []\<rparr>\<close>
  have r1: "recv 4096 (sock (connected [?b1])) = (Inr ?b1, ?s)"
    by (simp add: connected_def recv_def)
  have l1: "loads py_codec ?b1 = Some (JObj ?r1)"
    by (simp add: codec_eval)
  have m1: "py_eq_int (dict_get ?r1 ''id'') (int (id_counter (connected [?b1])))"
    by (simp add: py_eq_int_def dict_get_def connected_def)
  have r2: "recv 4096 (sock (connected [?b2])) = (Inr ?b2, ?s)"
    by (simp add: connected_def recv_def)
  have l2: "loads py_codec ?b2 = Some (JObj ?r2)"
    by (simp add: codec_eval)
  have m2: "py_eq_int (dict_get ?r2 ''id'') (int (id_counter (connected [?b2])))"
    by (simp add: py_eq_int_def dict_get_def connected_def)
  from call_matching_id_result [OF r1 l1 m1, of "''RPCServer.CreateBreakpoint''" ?p]
    call_matching_id_result [OF r2 l2 m2, of "''RPCServer.CreateBreakpoint''" ?p]
  show ?thesis by (simp add: dict_get_def)
qed

text \<open>
  C10. The id is compared before the \<^verbatim>\<open>error\<close> field is looked at: a response with
  a mismatching id makes the call raise the id-mismatch exception whatever its
  \<^verbatim>\<open>error\<close> field holds, and an \<^verbatim>\<open>Exception\<close> whose argument is anything but the
  mismatch message is raised only for a response whose id matches, its argument
  being the response's \<^verbatim>\<open>error\<close>.
\<close>

theorem call_checks_id_before_error:
  assumes "recv 4096 (sock c) = (Inr b, s')"
    and "loads cd b = Some (JObj response)"
  shows "(\<not> py_eq_int (dict_get response ''id'') (int (id_counter c)) \<longrightarrow>
            fst (call cd c name params) =
              Inl (Exception (JStr (mismatch_message cd (id_counter c) response))))
         \<and> (\<forall>v. fst (call cd c name params) = Inl (Exception v) \<and>
                 v \<noteq> JStr (mismatch_message cd (id_counter c) response) \<longrightarrow>
                 py_eq_int (dict_get response ''id'') (int (id_counter c)) \<and>
                 v = dict_get response ''error'' \<and> v \<noteq> JNull)"
  by (simp add: call_decoded [OF assms])

text \<open>
  The fact above at a response with id 5 and error \<^verbatim>\<open>"boom"\<close> answering request 0:
  the exception is the mismatch message, not \<^verbatim>\<open>Exception("boom")\<close>.
\<close>

theorem call_checks_id_before_error_witness:
  \<open>fst (call py_codec (connected [''{"id": 5, "result": null, "error": "boom"}''])
          ''RPCServer.Command'' [JObj [(''name'', JStr ''continue'')]]) =
     Inl (Exception (JStr ''expected id=0, received id=5: boom''))
   \<and> fst (call py_codec (connected [''{"id": 5, "result": null, "error": "boom"}''])
          ''RPCServer.Command'' [JObj [(''name'', JStr ''continue'')]]) \<noteq>
     Inl (Exception (JStr ''boom''))\<close>
proof -
  let ?p = \<open>[JObj [(''name'', JStr ''continue'')]]\<close>
  let ?b = \<open>''{"id": 5, "result": null, "error": "boom"}''\<close>
  let ?r = \<open>[(''id'', JInt 5), (''result'', JNull), (''error'', JStr ''boom'')]\<close>
  have r: "recv 4096 (sock (connected [?b])) = (Inr ?b, \<lparr>fd = 3, up = True, inbound = [], outbound = []\<rparr>)"
    by (simp add: connected_def recv_def)
  have l: "loads py_codec ?b = Some (JObj ?r)"
    by (simp add: codec_eval)
  have m: "\<not> py_eq_int (dict_get ?r ''id'') (int (id_counter (connected [?b])))"
    by (simp add: py_eq_int_def dict_get_def connected_def)
  have s: "mismatch_message py_codec (id_counter (connected [?b])) ?r =
             ''expected id=0, received id=5: boom''"
    by (simp add: mismatch_message_def dict_get_def connected_def codec_eval)
  have t: "fst (call py_codec (connected [?b]) ''RPCServer.Command'' ?p) =
             Inl (Exception (JStr (mismatch_message py_codec (id_counter (connected [?b])) ?r)))"
    using call_checks_id_before_error [OF r l, of "''RPCServer.Command''" ?p] m by blast
  show ?thesis unfolding t s by simp
qed

section \<open>The transport: the read\<close>

text \<open>Only the first 4096 bytes of the first arrival decide what a call returns.\<close>

lemma call_reads_one_buffer:
  assumes "up (sock c)" and "inbound (sock c) = chunk # rest"
  shows "fst (call cd c name params) =
         fst (call cd (c\<lparr>sock := (sock c)\<lparr>inbound := [take 4096 chunk]\<rparr>\<rparr>) name params)"
  using assms
  by (simp add: call_def sendall_def recv_def Let_def split: option.splits json.splits)

text \<open>
  C1. The claim is that a well-formed response arriving in two or more reads is
  accumulated and decoded. The source reads once (line 40, under the comment
  "This must loop if resp is bigger than 4K"): the same response that yields its
  breakpoint list when it arrives in one piece makes the call raise the decoding
  error when it arrives in two.
\<close>

theorem call_reads_split_response_once:
  \<open>fst (call py_codec
          (connected [''{"id": 0, "result": [{"id": 1, "file": "/tmp/a.go", "line": 10}], '' @
                      ''"error": null}''])
          ''RPCServer.ListBreakpoints'' []) =
     Inr (JArr [JObj [(''id'', JInt 1), (''file'', JStr ''/tmp/a.go''), (''line'', JInt 10)]])
   \<and> fst (call py_codec
          (connected [''{"id": 0, "result": [{"id": 1, "file": "/tmp/a.go", "line": 10}], '',
                      ''"error": null}''])
          ''RPCServer.ListBreakpoints'' []) =
     Inl ValueError\<close>
  by (simp add: call_def sendall_def recv_def connected_def dict_get_def py_eq_int_def codec_eval)

section \<open>The transport: request ids\<close>

text \<open>
  C2. On every transport, the requests written by any sequence of calls carry the
  ids 0, 1, 2, ... in order, one per call: the request of the n-th call (counting
  from 1) has id n - 1. Each transport counts for itself: two transports built
  one after the other both start at 0. (A call on a broken connection takes its
  id and writes nothing; the statement is about connections that accept writes.)
\<close>

theorem call_ids_count_from_zero:
  assumes "JSONClient_init a1 w = (Inr c1, w1)"
    and "JSONClient_init a2 w1 = (Inr c2, w2)"
    and "up (sock c1)" and "up (sock c2)"
  shows "outbound (sock (calls cd c1 reqs1)) =
           map (\<lambda>inp. dumps cd (request (fst inp) (fst (snd inp)) (snd (snd inp))))
             (zip [0 ..< length reqs1] reqs1)
         \<and> outbound (sock (calls cd c2 reqs2)) =
           map (\<lambda>inp. dumps cd (request (fst inp) (fst (snd inp)) (snd (snd inp))))
             (zip [0 ..< length reqs2] reqs2)
         \<and> id_counter (calls cd c1 reqs1) = length reqs1
         \<and> id_counter (calls cd c2 reqs2) = length reqs2"
proof -
  have "id_counter c1 = 0 \<and> outbound (sock c1) = []"
    using assms(1) by (auto simp: JSONClient_init_def split: option.splits)
  moreover have "id_counter c2 = 0 \<and> outbound (sock c2) = []"
    using assms(2) by (auto simp: JSONClient_init_def split: option.splits)
  ultimately show ?thesis
    using assms(3,4) by (simp add: calls_outbound calls_id_counter)
qed

text \<open>
  The fact above for two transports built in \<open>world0\<close>, two calls on the first and
  one on the second.
\<close>

theorem call_ids_count_from_zero_witness:
  \<open>outbound (sock (calls py_codec (connected [])
       [(''RPCServer.ListBreakpoints'', []),
        (''RPCServer.Command'', [JObj [(''name'', JStr ''continue'')]])])) =
     [''{"id": 0, "params": [], "method": "RPCServer.ListBreakpoints"}'',
      ''{"id": 1, "params": [{"name": "continue"}], "method": "RPCServer.Command"}'']
   \<and> outbound (sock (calls py_codec ((connected [])\<lparr>sock := (sock (connected []))\<lparr>fd := 4\<rparr>\<rparr>)
       [(''RPCServer.ListBreakpoints'', [])])) =
     [''{"id": 0, "params": [], "method": "RPCServer.ListBreakpoints"}'']\<close>
proof -
  let ?c1 = "connected []"
  let ?c2 = "(connected [])\<lparr>sock := (sock (connected []))\<lparr>fd := 4\<rparr>\<rparr>"
  let ?w1 = "world0\<lparr>next_fd := 4, trace := [Connect ''localhost'' 40000]\<rparr>"
  let ?w2 = "world0\<lparr>next_fd := 5,
               trace := [Connect ''localhost'' 40000, Connect ''localhost'' 40000]\<rparr>"
  have i1: "JSONClient_init (''localhost'', 40000) world0 = (Inr ?c1, ?w1)"
    by (simp add: JSONClient_init_def world0_def connected_def)
  have i2: "JSONClient_init (''localhost'', 40000) ?w1 = (Inr ?c2, ?w2)"
    by (simp add: JSONClient_init_def world0_def connected_def)
  have u1: "up (sock ?c1)" by (simp add: connected_def)
  have u2: "up (sock ?c2)" by (simp add: connected_def)
  from call_ids_count_from_zero [OF i1 i2 u1 u2, of py_codec
      "[(''RPCServer.ListBreakpoints'', []),
        (''RPCServer.Command'', [JObj [(''name'', JStr ''continue'')]])]"
      "[(''RPCServer.ListBreakpoints'', [])]"]
  show ?thesis
    by (simp add: request_def codec_eval upt_rec)
qed

section \<open>Launch\<close>

text \<open>
  C5, as stated: for a path that names no file, \<^verbatim>\<open>launch\<close> fails with
  \<^verbatim>\<open>InvalidProgram\<close>. It does not fail: at a missing path in \<open>world0\<close> the call
  returns without raising anything.
\<close>

theorem launch_missing_program_returns:
  "\<not> isl (fst (launch \<lparr>env = world0, ActiveSession = None\<rparr> ''/tmp/missing'' None ''Default''))"
  by (simp add: launch_def os_path_isfile_def world0_def)

text \<open>
  C5, amended. For every path that names no file, \<^verbatim>\<open>launch\<close> logs that the program
  does not exist and returns normally, raising nothing. The check comes first
  (lines 144 to 146): no port is looked for, no process is started, the registry
  is not written, and the log line is the only thing added to the trace.
\<close>

theorem launch_missing_program:
  assumes "\<not> os_path_isfile (env g) path"
  shows "launch g path key label =
           (Inr (), g\<lparr>env := Logger_log ''build completed but {0} doesn't exist'' (env g)\<rparr>)
         \<and> sessions_setting (env (snd (launch g path key label))) = sessions_setting (env g)
         \<and> running (env (snd (launch g path key label))) = running (env g)
         \<and> children (env (snd (launch g path key label))) = children (env g)
         \<and> trace (env (snd (launch g path key label))) =
             trace (env g) @ [Log ''build completed but {0} doesn't exist'']"
  using assms by (simp add: launch_def Logger_log_def)

text \<open>The fact above at a missing path in \<open>world0\<close>.\<close>

theorem launch_missing_program_witness:
  "launch \<lparr>env = world0, ActiveSession = None\<rparr> ''/tmp/missing'' None ''Default'' =
     (Inr (),
      \<lparr>env = world0\<lparr>trace := [Log ''build completed but {0} doesn't exist'']\<rparr>,
       ActiveSession = None\<rparr>)"
proof -
  have h: "\<not> os_path_isfile (env \<lparr>env = world0, ActiveSession = None\<rparr>) ''/tmp/missing''"
    by (simp add: os_path_isfile_def world0_def)
  from launch_missing_program [OF h, of None "''Default''"]
  show ?thesis by (simp add: Logger_log_def world0_def)
qed

text \<open>With the file in place the same call does start a process and write the registry.\<close>

lemma launch_existing_program:
  "trace (env (snd (launch \<lparr>env = world0, ActiveSession = None\<rparr> ''/tmp/a.test''
                      (Some ''a1b2c3d4e5'') ''TestFoo''))) =
     [Bind 40000,
      Spawn ''dlv'' [''--headless=true'', ''--listen=localhost:40000'', ''exec'', ''/tmp/a.test''] 100,
      SetSessions [(''a1b2c3d4e5'',
                    \<lparr>program = ''/tmp/a.test'', pid = 100, host = ''localhost'',
                     port = 40000, addr = ''localhost:40000'', desc = ''TestFoo''\<rparr>)],
      Log ''created new debugger session. current sessions: {0}'',
      Log ''debugger attached to session: {0}'']"
  by (simp add: launch_def os_path_isfile_def world0_def find_port_def run_nonblock_def
      settings_get_def settings_set_def Logger_log_def attach_def Let_def)

section \<open>Stop\<close>

text \<open>
  C8. For every key that the registry does not hold, \<^verbatim>\<open>stop\<close> returns without
  raising, leaves the registry and the processes as they are, and sends no
  signal: the log line is the only thing added to the trace.
\<close>

theorem stop_unknown_key:
  assumes "map_of (settings_get (env g)) key = None"
  shows "stop g key = (Inr (), g\<lparr>env := Logger_log ''no session '{0}' found'' (env g)\<rparr>)
         \<and> sessions_setting (env (snd (stop g key))) = sessions_setting (env g)
         \<and> running (env (snd (stop g key))) = running (env g)
         \<and> trace (env (snd (stop g key))) = trace (env g) @ [Log ''no session '{0}' found'']"
  using assms by (simp add: stop_def Logger_log_def Let_def)

text \<open>The fact above at an unknown key in \<open>world1\<close>.\<close>

theorem stop_unknown_key_witness:
  "stop \<lparr>env = world1, ActiveSession = None\<rparr> ''ffffffffff'' =
     (Inr (), \<lparr>env = world1\<lparr>trace := [Log ''no session '{0}' found'']\<rparr>, ActiveSession = None\<rparr>)"
proof -
  have h: "map_of (settings_get (env \<lparr>env = world1, ActiveSession = None\<rparr>)) ''ffffffffff'' = None"
    by (simp add: settings_get_def world1_def world0_def)
  from stop_unknown_key [OF h]
  show ?thesis by (simp add: Logger_log_def world1_def world0_def)
qed

text \<open>
  C7. For every key that the registry holds, \<^verbatim>\<open>stop\<close> writes the registry without
  that key before it calls \<^verbatim>\<open>os.kill\<close>, and returns without raising whether or
  not the kill and the reaping succeed: the record is gone in every case, and a
  failure only adds a warning to the log.
\<close>

theorem stop_removes_record_first:
  assumes "map_of (settings_get (env g)) key = Some s"
  shows "fst (stop g key) = Inr ()
         \<and> sessions_setting (env (snd (stop g key))) =
             Some (AList.delete key (settings_get (env g)))
         \<and> map_of (settings_get (env (snd (stop g key)))) key = None
         \<and> trace (env (snd (stop g key))) =
             trace (env g) @
             [Log ''stopping session: {0}'',
              SetSessions (AList.delete key (settings_get (env g))),
              Kill (session.pid s)] @
             (if session.pid s \<in> set (running (env g))
              then [Waitpid (session.pid s),
                    Log (if session.pid s \<in> set (children (env g))
                         then ''killed pid {0} for debugging session {1}''
                         else ''warning: couldn't kill pid {0} debugging session pid {1}: {2}'')]
              else [Log ''warning: couldn't kill pid {0} debugging session pid {1}: {2}'']) @
             [Log ''deleted session {0}'']"
  using assms
  by (simp add: stop_def Let_def Logger_log_def settings_set_def settings_get_def
      os_kill_def os_waitpid_def delete_conv')

text \<open>
  The fact above in \<open>world1\<close>, where the debugger process has already exited and
  \<^verbatim>\<open>os.kill\<close> raises.
\<close>

theorem stop_removes_record_first_witness:
  "fst (stop \<lparr>env = world1, ActiveSession = None\<rparr> ''a1b2c3d4e5'') = Inr ()
   \<and> sessions_setting (env (snd (stop \<lparr>env = world1, ActiveSession = None\<rparr> ''a1b2c3d4e5''))) =
       Some []
   \<and> trace (env (snd (stop \<lparr>env = world1, ActiveSession = None\<rparr> ''a1b2c3d4e5''))) =
       [Log ''stopping session: {0}'', SetSessions [], Kill 4242,
        Log ''warning: couldn't kill pid {0} debugging session pid {1}: {2}'',
        Log ''deleted session {0}'']"
proof -
  let ?s = "\<lparr>program = ''/tmp/a.test'', pid = 4242, host = ''localhost'',
             port = 40000, addr = ''localhost:40000'', desc = ''TestFoo''\<rparr>"
  have h: "map_of (settings_get (env \<lparr>env = world1, ActiveSession = None\<rparr>)) ''a1b2c3d4e5'' = Some ?s"
    by (simp add: settings_get_def world1_def world0_def)
  from stop_removes_record_first [OF h]
  show ?thesis by (simp add: settings_get_def world1_def world0_def)
qed

section \<open>Facts about the session\<close>

lemma call_ok_up: "fst (call cd c name params) = Inr r \<Longrightarrow> up (sock c)"
  by (auto simp: call_def sendall_def Let_def split: if_splits)

lemma rpc_some: "rpc_slot self = Some c \<Longrightarrow> rpc self w = (Inr c, self, w)"
  by (simp add: rpc_def)


lemma rpc_ok_sent: "rpc self w = (Inr c, self1, w1) \<Longrightarrow> outbound (sock c) = sent self"
  by (auto simp: rpc_def sent_def JSONClient_init_def split: option.splits prod.splits sum.splits)

lemma rpc_call_some:
  "rpc_slot self = Some c \<Longrightarrow>
   rpc_call cd self w name params =
     (fst (call cd c name params), self\<lparr>rpc_slot := Some (snd (call cd c name params))\<rparr>, w)"
  by (simp add: rpc_call_def rpc_some split: prod.splits)

text \<open>A list fetch that succeeded wrote one request, on a transport the session now holds.\<close>

lemma get_breakpoints_ok:
  assumes "get_breakpoints cd self w = (Inr v, self1, w1)"
  shows "\<exists>c1 j. rpc_slot self1 = Some c1 \<and> up (sock c1) \<and> id_counter c1 = Suc j \<and>
           sent self1 = sent self @ [dumps cd (request j ''RPCServer.ListBreakpoints'' [])]"
proof -
  from assms obtain c self0 where
    r: "rpc self w = (Inr c, self0, w1)"
    and k: "call cd c ''RPCServer.ListBreakpoints'' [] = (Inr v, the (rpc_slot self1))"
    and s: "self1 = self0\<lparr>rpc_slot := Some (snd (call cd c ''RPCServer.ListBreakpoints'' []))\<rparr>"
    by (auto simp: get_breakpoints_def rpc_call_def split: prod.splits sum.splits)
  let ?c1 = "snd (call cd c ''RPCServer.ListBreakpoints'' [])"
  have "fst (call cd c ''RPCServer.ListBreakpoints'' []) = Inr v" using k by simp
  then have u: "up (sock c)" by (rule call_ok_up)
  have "rpc_slot self1 = Some ?c1" using s by simp
  moreover have "up (sock ?c1)" using u by (simp add: call_up)
  moreover have "id_counter ?c1 = Suc (id_counter c)" by (simp add: call_id_counter)
  moreover have "sent self1 = sent self @ [dumps cd (request (id_counter c) ''RPCServer.ListBreakpoints'' [])]"
    using s u rpc_ok_sent [OF r] by (simp add: sent_def call_outbound)
  ultimately show ?thesis by blast
qed

lemma is_breakpoint_subscripts:
  "is_breakpoint bp \<Longrightarrow>
   \<exists>d. bp = JObj d \<and> d \<noteq> [] \<and>
       subscript bp ''file'' = Inr (dict_get d ''file'') \<and>
       subscript bp ''line'' = Inr (dict_get d ''line'') \<and>
       subscript bp ''id'' = Inr (dict_get d ''id'')"
  by (cases bp) (auto simp: is_breakpoint_def subscript_def dict_get_def)

text \<open>On a list of breakpoints the loop finds the first one at the file and line.\<close>

lemma scan_find:
  "\<forall>bp \<in> set bps. is_breakpoint bp \<Longrightarrow> scan bps filename line = Inr (find (bp_at filename line) bps)"
proof (induction bps)
  case Nil
  show ?case by simp
next
  case (Cons bp bps)
  then obtain d where "bp = JObj d"
    and "subscript bp ''file'' = Inr (dict_get d ''file'')"
    and "subscript bp ''line'' = Inr (dict_get d ''line'')"
    using is_breakpoint_subscripts [of bp] by auto
  with Cons show ?case by (simp add: bp_at_def)
qed

lemma find_breakpoint:
  "\<forall>bp \<in> set bps. is_breakpoint bp \<Longrightarrow> find P bps = Some bp \<Longrightarrow>
   py_bool bp \<and> subscript bp ''id'' = Inr (bp_id bp)"
proof -
  assume a: "\<forall>bp \<in> set bps. is_breakpoint bp" and f: "find P bps = Some bp"
  from f have "bp \<in> set bps" by (auto simp: find_Some_iff)
  with a have "is_breakpoint bp" by blast
  then show ?thesis
    using is_breakpoint_subscripts [of bp] by (auto simp: py_bool_def bp_id_def)
qed

lemmas session_eval = get_breakpoints_def rpc_call_def rpc_def JSONClient_init_def
  DebuggingSession_init_def call_def sendall_def recv_def dict_get_def py_eq_int_def
  request_def Logger_log_def

section \<open>Clearing a breakpoint\<close>

text \<open>
  C6. \<^verbatim>\<open>clear_breakpoint(file, line)\<close> first fetches the breakpoint list, which
  writes one \<^verbatim>\<open>ListBreakpoints\<close> request. When the debugger answers with a list of
  breakpoints: if none of them is at the file and line, the call returns without
  error in the state the fetch left, so nothing more was written and no
  \<^verbatim>\<open>ClearBreakpoint\<close> request in particular; if some are, what is written after the
  fetch is exactly one \<^verbatim>\<open>ClearBreakpoint\<close> request, carrying the id of the first of
  them in the order the debugger listed them, followed only by the
  \<^verbatim>\<open>ListBreakpoints\<close> request of the closing log line when the clearing call did
  not raise.
\<close>

theorem clear_breakpoint_requests:
  assumes g: "get_breakpoints cd self w = (Inr (JArr bps), self1, w1)"
    and wf: "\<forall>bp \<in> set bps. is_breakpoint bp"
    and c1: "rpc_slot self1 = Some c1"
  shows "(\<exists>j. sent self1 = sent self @ [dumps cd (request j ''RPCServer.ListBreakpoints'' [])]) \<and>
     (case find (bp_at filename line) bps of
        None \<Rightarrow>
          clear_breakpoint cd self w filename line =
            (Inr (), self1, Logger_log ''no breakpoint found at {0}:{1}'' w1)
      | Some bp \<Rightarrow>
          sent (fst (snd (clear_breakpoint cd self w filename line))) =
            sent self1 @
            [dumps cd (request (id_counter c1) ''RPCServer.ClearBreakpoint'' [bp_id bp])] @
            (if isl (fst (call cd c1 ''RPCServer.ClearBreakpoint'' [bp_id bp])) then []
             else [dumps cd (request (Suc (id_counter c1)) ''RPCServer.ListBreakpoints'' [])]))"
proof -
  from get_breakpoints_ok [OF g] c1 obtain j where
    u: "up (sock c1)"
    and s: "sent self1 = sent self @ [dumps cd (request j ''RPCServer.ListBreakpoints'' [])]"
    by auto
  have sc: "scan bps filename line = Inr (find (bp_at filename line) bps)"
    using wf by (rule scan_find)
  show ?thesis
  proof (cases "find (bp_at filename line) bps")
    case None
    then show ?thesis
      using s sc g by (auto simp: clear_breakpoint_def py_iter_def)
  next
    case (Some bp)
    obtain r c2 where k: "call cd c1 ''RPCServer.ClearBreakpoint'' [bp_id bp] = (r, c2)"
      by (cases "call cd c1 ''RPCServer.ClearBreakpoint'' [bp_id bp]")
    have b: "py_bool bp" "subscript bp ''id'' = Inr (bp_id bp)"
      using find_breakpoint [OF wf Some] by auto
    have o2: "outbound (sock c2) =
        sent self1 @ [dumps cd (request (id_counter c1) ''RPCServer.ClearBreakpoint'' [bp_id bp])]"
      using u c1 call_outbound [of cd c1 "''RPCServer.ClearBreakpoint''" "[bp_id bp]"] k
      by (simp add: sent_def)
    have u2: "up (sock c2)"
      using u call_up [of cd c1 "''RPCServer.ClearBreakpoint''" "[bp_id bp]"] k by simp
    have i2: "id_counter c2 = Suc (id_counter c1)"
      using call_id_counter [of cd c1 "''RPCServer.ClearBreakpoint''" "[bp_id bp]"] k by simp
    have l: "sent (fst (snd (get_breakpoints cd (self1\<lparr>rpc_slot := Some c2\<rparr>) w'))) =
        outbound (sock c2) @ [dumps cd (request (Suc (id_counter c1)) ''RPCServer.ListBreakpoints'' [])]"
      for w'
      using u2 i2 by (simp add: get_breakpoints_def rpc_call_some sent_def call_outbound)
    have "sent (fst (snd (clear_breakpoint cd self w filename line))) =
        sent self1 @
        [dumps cd (request (id_counter c1) ''RPCServer.ClearBreakpoint'' [bp_id bp])] @
        (if isl (fst (call cd c1 ''RPCServer.ClearBreakpoint'' [bp_id bp])) then []
         else [dumps cd (request (Suc (id_counter c1)) ''RPCServer.ListBreakpoints'' [])])"
    proof (cases r)
      case (Inl e)
      then show ?thesis
        using g sc Some b c1 o2 k
        by (simp add: clear_breakpoint_def py_iter_def rpc_some sent_def)
    next
      case (Inr x)
      let ?g = "get_breakpoints cd (self1\<lparr>rpc_slot := Some c2\<rparr>)
                  (Logger_log ''cleared breakpoint '{0}' at {1}:{2}'' w1)"
      obtain r3 self3 w3 where g3: "?g = (r3, self3, w3)" by (cases ?g)
      have "sent self3 = outbound (sock c2) @
              [dumps cd (request (Suc (id_counter c1)) ''RPCServer.ListBreakpoints'' [])]"
        using l [of "Logger_log ''cleared breakpoint '{0}' at {1}:{2}'' w1"] g3 by simp
      then show ?thesis
        using Inr g sc Some b c1 o2 k g3
        by (cases r3) (simp_all add: clear_breakpoint_def py_iter_def rpc_some)
    qed
    with s Some show ?thesis by auto
  qed
qed

text \<open>
  The fact above for \<open>session1\<close> in \<open>world2\<close>: clearing \<^verbatim>\<open>/tmp/a.go:10\<close>, where
  breakpoints 7 and 8 both sit, asks for 7 only; clearing \<^verbatim>\<open>/tmp/b.go:10\<close>, where
  none sits, returns after the fetch.
\<close>

theorem clear_breakpoint_requests_witness:
  \<open>sent (fst (snd (clear_breakpoint py_codec session1 world2 ''/tmp/a.go'' 10))) =
     [''{"id": 0, "params": [], "method": "RPCServer.ListBreakpoints"}'',
      ''{"id": 1, "params": [7], "method": "RPCServer.ClearBreakpoint"}'',
      ''{"id": 2, "params": [], "method": "RPCServer.ListBreakpoints"}'']
   \<and> fst (clear_breakpoint py_codec session1 world2 ''/tmp/b.go'' 10) = Inr ()
   \<and> sent (fst (snd (clear_breakpoint py_codec session1 world2 ''/tmp/b.go'' 10))) =
     [''{"id": 0, "params": [], "method": "RPCServer.ListBreakpoints"}'']\<close>
proof -
  let ?bps = \<open>[JObj [(''id'', JInt 7), (''file'', JStr ''/tmp/a.go''), (''line'', JInt 10)],
               JObj [(''id'', JInt 8), (''file'', JStr ''/tmp/a.go''), (''line'', JInt 10)]]\<close>
  let ?c1 = \<open>\<lparr>sock = \<lparr>fd = 3, up = True,
                 inbound = [''{"id": 1, "result": null, "error": null}'',
                   ''{"id": 2, "result": [{"id": 8, "file": "/tmp/a.go", "line": 10}], "error": null}''],
                 outbound = [''{"id": 0, "params": [], "method": "RPCServer.ListBreakpoints"}'']\<rparr>,
              id_counter = 1\<rparr>\<close>
  let ?g = "get_breakpoints py_codec session1 world2"
  have e: "fst ?g = Inr (JArr ?bps) \<and> rpc_slot (fst (snd ?g)) = Some ?c1"
    by (simp add: session_eval session1_def world2_def world0_def codec_eval)
  have g: "?g = (Inr (JArr ?bps), fst (snd ?g), snd (snd ?g))"
    using e by (simp add: prod_eq_iff)
  have wf: "\<forall>bp \<in> set ?bps. is_breakpoint bp"
    by (simp add: is_breakpoint_def)
  have c1: "rpc_slot (fst (snd ?g)) = Some ?c1" using e by simp
  have s0: "sent session1 = []"
    by (simp add: sent_def session1_def DebuggingSession_init_def)
  have s1: "sent (fst (snd ?g)) = outbound (sock ?c1)"
    using c1 by (simp add: sent_def)
  have k: "\<not> isl (fst (call py_codec ?c1 ''RPCServer.ClearBreakpoint'' [JInt 7]))"
    by (simp add: call_def sendall_def recv_def dict_get_def py_eq_int_def codec_eval)
  have a: "find (bp_at ''/tmp/a.go'' 10) ?bps = Some (hd ?bps)"
    by (simp add: bp_at_def py_eq_str_def py_eq_int_def dict_get_def)
  have b: "find (bp_at ''/tmp/b.go'' 10) ?bps = None"
    by (simp add: bp_at_def py_eq_str_def py_eq_int_def dict_get_def)
  have i: "bp_id (hd ?bps) = JInt 7"
    by (simp add: bp_id_def dict_get_def)
  have d: \<open>dumps py_codec (request 1 ''RPCServer.ClearBreakpoint'' [JInt 7]) =
             ''{"id": 1, "params": [7], "method": "RPCServer.ClearBreakpoint"}''\<close>
    \<open>dumps py_codec (request (Suc (Suc 0)) ''RPCServer.ListBreakpoints'' []) =
             ''{"id": 2, "params": [], "method": "RPCServer.ListBreakpoints"}''\<close>
    by (simp_all add: request_def codec_eval)
  from clear_breakpoint_requests [OF g wf c1, of "''/tmp/a.go''" 10] a i k s1 d
  have p1: \<open>sent (fst (snd (clear_breakpoint py_codec session1 world2 ''/tmp/a.go'' 10))) =
     [''{"id": 0, "params": [], "method": "RPCServer.ListBreakpoints"}'',
      ''{"id": 1, "params": [7], "method": "RPCServer.ClearBreakpoint"}'',
      ''{"id": 2, "params": [], "method": "RPCServer.ListBreakpoints"}'']\<close>
    by simp
  from clear_breakpoint_requests [OF g wf c1, of "''/tmp/b.go''" 10] b s1
  have p2: \<open>fst (clear_breakpoint py_codec session1 world2 ''/tmp/b.go'' 10) = Inr ()
      \<and> sent (fst (snd (clear_breakpoint py_codec session1 world2 ''/tmp/b.go'' 10))) =
          [''{"id": 0, "params": [], "method": "RPCServer.ListBreakpoints"}'']\<close>
    by simp
  from p1 p2 show ?thesis by simp
qed

section \<open>What every operation of a session preserves\<close>















section \<open>One transport for each session\<close>



end
